theory Spec2Isabelle
  imports Main "HOL-Library.AList"
begin

section \<open>Python values, dictionaries and exceptions\<close>

text \<open>
  The values that travel through the crawler: JSON-like payloads of decision nodes, keyword
  arguments and feature rows. A Python \<open>dict\<close> with string keys is an association list in
  insertion order; \<open>AList.update\<close> is item assignment (an existing key keeps its place, a
  new key goes last), \<open>AList.delete\<close> is \<open>del\<close> on a present key, \<open>map_of\<close> is lookup.
  Numbers are Python's unbounded integers; \<open>bool\<close> is a subclass of \<open>int\<close>, as in
  Python. Non-integral floats are not part of this model.
\<close>

datatype pyval =
    PNone
  | PBool bool
  | PInt int
  | PStr string
  | PPath "string list"
  | PList "pyval list"
  | PDict "(string \<times> pyval) list"

type_synonym pydict = "(string \<times> pyval) list"

datatype py_error =
    AssertionError string
  | KeyError string
  | TypeError string
  | OtherException string

text \<open>
  What a \<open>raise\<close> can carry, by the class that an \<open>except\<close> clause tests:
  \<open>KeyboardInterrupt\<close>, an instance of \<open>Exception\<close>, or another \<open>BaseException\<close>
  (\<open>SystemExit\<close>, \<open>GeneratorExit\<close>, \<open>asyncio.CancelledError\<close>).
\<close>

datatype py_raise =
    KeyboardInterrupt
  | Exception py_error
  | OtherBaseException string

definition keys :: "('k \<times> 'v) list \<Rightarrow> 'k list" where
  "keys d = map fst d"

text \<open>
  \<open>f(a=.., **d)\<close>: the keywords of \<open>d\<close> are added one by one to the keywords collected so
  far; a keyword that is already there raises \<open>TypeError\<close> (multiple values for keyword
  argument).
\<close>

fun kwargs_merge :: "pydict \<Rightarrow> pydict \<Rightarrow> py_error + pydict" where
  "kwargs_merge acc [] = Inr acc"
| "kwargs_merge acc ((k, v) # kvs) =
     (if k \<in> set (keys acc) then Inl (TypeError k)
      else kwargs_merge (acc @ [(k, v)]) kvs)"

text \<open>
  The builtin \<open>sum\<close> with its default start \<open>0\<close>: the argument must be iterable, and
  every element must add to an \<open>int\<close> (\<open>as_int\<close>: an \<open>int\<close> as itself, a \<open>bool\<close> as
  0 or 1). Iterating a \<open>dict\<close> yields its keys and iterating
  a \<open>str\<close> yields one-character strings, so only the empty ones sum (to \<open>0\<close>).
\<close>

fun as_int :: "pyval \<Rightarrow> int option" where
  "as_int (PInt n) = Some n"
| "as_int (PBool b) = Some (if b then 1 else 0)"
| "as_int v = None"

fun sum_from :: "int \<Rightarrow> pyval list \<Rightarrow> py_error + int" where
  "sum_from acc [] = Inr acc"
| "sum_from acc (v # vs) =
     (case as_int v of
        None \<Rightarrow> Inl (TypeError ''unsupported operand type(s) for +'')
      | Some n \<Rightarrow> sum_from (acc + n) vs)"

fun py_sum :: "pyval \<Rightarrow> py_error + pyval" where
  "py_sum (PList vs) = map_sum id PInt (sum_from 0 vs)"
| "py_sum (PDict d) =
     (if d = [] then Inr (PInt 0) else Inl (TypeError ''unsupported operand type(s) for +''))"
| "py_sum (PStr s) =
     (if s = [] then Inr (PInt 0) else Inl (TypeError ''unsupported operand type(s) for +''))"
| "py_sum v = Inl (TypeError ''object is not iterable'')"

section \<open>Decision nodes\<close>

text \<open>
  \<open>NittaNode\<close>, by the attributes the feature extractor reads. \<open>parameters\<close> is any
  value: the extractor itself checks that it is a \<open>dict\<close> where it needs one.
\<close>

record nitta_node =
  sid :: string
  decision_tag :: string
  score :: int
  is_terminal :: bool
  parameters :: pyval

definition SINGLE_BIND_DECISION_TAG :: string where
  "SINGLE_BIND_DECISION_TAG = ''SingleBindView''"

definition GROUP_BIND_DECISION_TAG :: string where
  "GROUP_BIND_DECISION_TAG = ''GroupBindView''"

definition BIND_DECISION_TAGS :: "string list" where
  "BIND_DECISION_TAGS = [SINGLE_BIND_DECISION_TAG, GROUP_BIND_DECISION_TAG]"

definition DATAFLOW_DECISION_TAGS :: "string list" where
  "DATAFLOW_DECISION_TAGS = [''DataflowDecisionView'']"

section \<open>The feature extractor (node\_converting.py)\<close>

text \<open>
  \<open>_extract_params_dict\<close>. The \<open>assert\<close> is the \<open>AssertionError\<close> branch, the subscript
  \<open>result["pNotTransferableInputs"]\<close> and \<open>del result["tag"]\<close> raise \<open>KeyError\<close> on a
  missing key.
\<close>

definition extract_params_dict :: "nitta_node \<Rightarrow> py_error + pydict" where
  "extract_params_dict node =
     (if decision_tag node \<in> set (DATAFLOW_DECISION_TAGS @ BIND_DECISION_TAGS) then
        (case parameters node of
           PDict result \<Rightarrow>
             (if decision_tag node \<in> set DATAFLOW_DECISION_TAGS then
                (case map_of result ''pNotTransferableInputs'' of
                   None \<Rightarrow> Inl (KeyError ''pNotTransferableInputs'')
                 | Some v \<Rightarrow>
                     (case py_sum v of
                        Inl e \<Rightarrow> Inl e
                      | Inr s \<Rightarrow> Inr (AList.update ''pNotTransferableInputs'' s result)))
              else if decision_tag node \<in> set BIND_DECISION_TAGS then
                (if ''tag'' \<in> set (keys result) then Inr (AList.delete ''tag'' result)
                 else Inl (KeyError ''tag''))
              else Inr result)
         | _ \<Rightarrow> Inl (AssertionError ''parameters must be a dict for Bind and Dataflow decisions''))
      else if decision_tag node = ''RootView'' then Inr []
      else Inr [(''pRefactoringType'', PStr (decision_tag node))])"

text \<open>
  \<open>_extract_alternative_siblings_dict\<close>. The counters live in a dictionary with four
  fixed keys; \<open>result[k] += 1\<close> on a present key is \<open>AList.map_entry\<close>.
\<close>

fun count_siblings :: "nitta_node \<Rightarrow> nitta_node list \<Rightarrow> (string \<times> int) list \<Rightarrow> (string \<times> int) list" where
  "count_siblings node [] result = result"
| "count_siblings node (sibling # siblings) result =
     (if sid sibling = sid node then count_siblings node siblings result
      else if decision_tag sibling = SINGLE_BIND_DECISION_TAG then
        count_siblings node siblings (AList.map_entry ''alt_bindings'' (\<lambda>c. c + 1) result)
      else if decision_tag sibling = GROUP_BIND_DECISION_TAG then
        count_siblings node siblings (AList.map_entry ''alt_group_bindings'' (\<lambda>c. c + 1) result)
      else if decision_tag sibling \<in> set DATAFLOW_DECISION_TAGS then
        count_siblings node siblings (AList.map_entry ''alt_dataflows'' (\<lambda>c. c + 1) result)
      else
        count_siblings node siblings (AList.map_entry ''alt_refactorings'' (\<lambda>c. c + 1) result))"

definition extract_alternative_siblings_dict :: "nitta_node \<Rightarrow> nitta_node list \<Rightarrow> (string \<times> int) list" where
  "extract_alternative_siblings_dict node siblings =
     count_siblings node siblings
       [(''alt_bindings'', 0), (''alt_group_bindings'', 0), (''alt_dataflows'', 0), (''alt_refactorings'', 0)]"

text \<open>
  \<open>nitta_node_to_df_dict\<close>: the five explicit keywords, then the two unpacked
  dictionaries, each evaluated and merged in turn.
\<close>

definition base_fields :: "nitta_node \<Rightarrow> string option \<Rightarrow> pydict" where
  "base_fields node example =
     [(''example'', (case example of None \<Rightarrow> PNone | Some s \<Rightarrow> PStr s)),
      (''sid'', PStr (sid node)),
      (''tag'', PStr (decision_tag node)),
      (''old_score'', PInt (score node)),
      (''is_terminal'', PBool (is_terminal node))]"

definition nitta_node_to_df_dict :: "nitta_node \<Rightarrow> nitta_node list \<Rightarrow> string option \<Rightarrow> py_error + pydict" where
  "nitta_node_to_df_dict node siblings example =
     (case kwargs_merge (base_fields node example)
             (map (\<lambda>(k, c). (k, PInt c)) (extract_alternative_siblings_dict node siblings)) of
        Inl e \<Rightarrow> Inl e
      | Inr acc \<Rightarrow>
          (case extract_params_dict node of
             Inl e \<Rightarrow> Inl e
           | Inr params \<Rightarrow> kwargs_merge acc params))"

text \<open>
  The keywords collected when the parameters dictionary is about to be merged: the five
  explicit ones and the four alternative counts.
\<close>

definition row_prefix :: "nitta_node \<Rightarrow> nitta_node list \<Rightarrow> string option \<Rightarrow> pydict" where
  "row_prefix node siblings example =
     base_fields node example @
     map (\<lambda>(k, c). (k, PInt c)) (extract_alternative_siblings_dict node siblings)"

section \<open>The sampling driver and the crawl orchestrator (data\_crawling.py)\<close>

text \<open>
  A \<open>pathlib.Path\<close> is the list of its \<open>parts\<close>, on a POSIX file system: a root
  (\<open>/\<close> or \<open>//\<close>) comes first when the path is absolute, and no other part contains a
  slash. \<open>Path.name\<close> is the last part, and the empty string when there is nothing after
  the root.
\<close>

type_synonym path = "string list"

definition path_name :: "path \<Rightarrow> string" where
  "path_name p = (if p = [] \<or> CHR ''/'' \<in> set (last p) then [] else last p)"

text \<open>
  \<open>SamplingResult\<close>, by what the orchestrator reads of it: \<open>stats\<close>, here already in the
  form \<open>dataclasses.asdict\<close> gives it.
\<close>

record sampling_result =
  stats :: pydict

text \<open>
  The collaborators that are imported from other modules, and the file system, are
  parameters of the model. The sampler receives the target algorithm, the runner keywords
  and the shared accumulator; it gives back the accumulator as its appends left it and the
  exception it raised, if any. The other two either return or raise. Logging is not
  modelled.
\<close>

record env =
  path_exists :: "path \<Rightarrow> bool"
  run_synthesis_tree_sampling :: "path \<Rightarrow> pydict \<Rightarrow> pydict list \<Rightarrow> pydict list \<times> py_raise option"
  process_and_save_sampling_results :: "path \<Rightarrow> pydict list \<Rightarrow> pyval \<Rightarrow> py_raise + sampling_result"
  save_dicts_list_to_csv_with_timestamp :: "pydict list \<Rightarrow> path \<Rightarrow> string \<Rightarrow> py_raise option"
  DATA_DIR :: path
  EXAMPLES_DIR :: path

text \<open>The calls that reach a collaborator, in the order they happen.\<close>

datatype event =
    is_Sampled: Sampled path pydict
  | is_Processed: Processed path "pydict list" pyval
  | is_SavedSummary: SavedSummary "pydict list"

text \<open>
  \<open>except KeyboardInterrupt\<close> and \<open>except Exception\<close>: the two handlers of the driver.
\<close>

fun handled :: "py_raise \<Rightarrow> bool" where
  "handled KeyboardInterrupt = True"
| "handled (Exception e) = True"
| "handled (OtherBaseException s) = False"

text \<open>
  The call \<open>run_synthesis_tree_sampling(example, results_accum=results, **runner_kwargs)\<close>:
  a runner keyword named \<open>results_accum\<close> is a \<open>TypeError\<close> of the call itself, raised
  inside the \<open>try\<close> before the sampler runs.
\<close>

definition call_run_synthesis_tree_sampling ::
  "env \<Rightarrow> path \<Rightarrow> pydict list \<Rightarrow> pydict \<Rightarrow> event list \<Rightarrow> event list \<times> pydict list \<times> py_raise option" where
  "call_run_synthesis_tree_sampling env example results runner_kwargs tr =
     (if ''results_accum'' \<in> set (keys runner_kwargs) then
        (tr, results, Some (Exception (TypeError ''results_accum'')))
      else
        (case run_synthesis_tree_sampling env example runner_kwargs results of
           (results', outcome) \<Rightarrow> (tr @ [Sampled example runner_kwargs], results', outcome)))"

definition crawl_data_from_example ::
  "env \<Rightarrow> path \<Rightarrow> pyval \<Rightarrow> pydict \<Rightarrow> event list \<Rightarrow> event list \<times> (py_raise + sampling_result option)" where
  "crawl_data_from_example env example data_dir runner_kwargs tr =
     (if \<not> path_exists env example then (tr, Inr None)
      else
        (case call_run_synthesis_tree_sampling env example [] runner_kwargs tr of
           (tr1, results, outcome) \<Rightarrow>
             (case outcome of
                Some e \<Rightarrow>
                  (if handled e then
                     (tr1 @ [Processed example results data_dir],
                      map_sum id Some (process_and_save_sampling_results env example results data_dir))
                   else (tr1, Inl e))
              | None \<Rightarrow>
                  (tr1 @ [Processed example results data_dir],
                   map_sum id Some (process_and_save_sampling_results env example results data_dir)))))"

definition MANUAL_FULL_CRAWL_CONFIG :: "path \<Rightarrow> (path \<times> pydict) list" where
  "MANUAL_FULL_CRAWL_CONFIG examples_dir =
     [(examples_dir @ [''spi3.lua''], [(''n_samples_per_batch'', PInt 149), (''n_samples'', PInt 39757)]),
      (examples_dir @ [''sum.lua''], [(''n_samples_per_batch'', PInt 131), (''n_samples'', PInt 28014)]),
      (examples_dir @ [''constantFolding.lua''], [(''n_samples_per_batch'', PInt 128), (''n_samples'', PInt 26607)]),
      (examples_dir @ [''pid.lua''], [(''n_samples_per_batch'', PInt 72), (''n_samples'', PInt 14356)]),
      (examples_dir @ [''teacup.lua''], [(''n_samples_per_batch'', PInt 88), (''n_samples'', PInt 16559)]),
      (examples_dir @ [''generated'', ''matrix-mult-1x3.lua''], [(''n_samples_per_batch'', PInt 98), (''n_samples'', PInt 18219)]),
      (examples_dir @ [''generated'', ''cyclic3.lua''], [(''n_samples_per_batch'', PInt 95), (''n_samples'', PInt 17677)]),
      (examples_dir @ [''generated'', ''cyclic4.lua''], [(''n_samples_per_batch'', PInt 63), (''n_samples'', PInt 13345)]),
      (examples_dir @ [''generated'', ''cyclic5.lua''], [(''n_samples_per_batch'', PInt 59), (''n_samples'', PInt 12933)]),
      (examples_dir @ [''generated'', ''vars.lua''], [(''n_samples_per_batch'', PInt 27), (''n_samples'', PInt 10452)])]"

text \<open>
  The call \<open>crawl_data_from_example(example, **kwargs)\<close> of the loop: a keyword named
  \<open>example\<close> collides with the positional argument, a keyword named \<open>data_dir\<close> replaces
  the default \<open>DATA_DIR\<close>, and the rest are the runner keywords.
\<close>

definition call_crawl_data_from_example ::
  "env \<Rightarrow> path \<Rightarrow> pydict \<Rightarrow> event list \<Rightarrow> event list \<times> (py_raise + sampling_result option)" where
  "call_crawl_data_from_example env example kwargs tr =
     (if ''example'' \<in> set (keys kwargs) then (tr, Inl (Exception (TypeError ''example'')))
      else
        crawl_data_from_example env example
          (case map_of kwargs ''data_dir'' of None \<Rightarrow> PPath (DATA_DIR env) | Some d \<Rightarrow> d)
          (AList.delete ''data_dir'' kwargs) tr)"

text \<open>
  The dictionary display \<open>{"example": example.name, **asdict(sampling_result.stats)}\<close>: in a
  display a repeated key takes the later value.
\<close>

definition summary_row :: "path \<Rightarrow> sampling_result \<Rightarrow> pydict" where
  "summary_row example sampling_result =
     foldl (\<lambda>d (k, v). AList.update k v d) [(''example'', PStr (path_name example))] (stats sampling_result)"

fun crawl_loop ::
  "env \<Rightarrow> (path \<times> pydict) list \<Rightarrow> pydict list \<Rightarrow> event list \<Rightarrow> event list \<times> (py_raise + pydict list)" where
  "crawl_loop env [] summary_stats tr = (tr, Inr summary_stats)"
| "crawl_loop env ((example, kwargs) # rest) summary_stats tr =
     (case call_crawl_data_from_example env example kwargs tr of
        (tr', Inl e) \<Rightarrow> (tr', Inl e)
      | (tr', Inr None) \<Rightarrow> crawl_loop env rest summary_stats tr'
      | (tr', Inr (Some sampling_result)) \<Rightarrow>
          crawl_loop env rest (summary_stats @ [summary_row example sampling_result]) tr')"

definition save_summary :: "env \<Rightarrow> pydict list \<Rightarrow> event list \<Rightarrow> event list \<times> (py_raise + unit)" where
  "save_summary env summary_stats tr =
     (tr @ [SavedSummary summary_stats],
      (case save_dicts_list_to_csv_with_timestamp env summary_stats (DATA_DIR env) ''_crawling_summary'' of
         None \<Rightarrow> Inr ()
       | Some e \<Rightarrow> Inl e))"

definition crawl_data_from_many_examples ::
  "env \<Rightarrow> (path \<times> pydict) list option \<Rightarrow> event list \<Rightarrow> event list \<times> (py_raise + unit)" where
  "crawl_data_from_many_examples env crawl_config tr =
     (case crawl_loop env
             (case crawl_config of None \<Rightarrow> MANUAL_FULL_CRAWL_CONFIG (EXAMPLES_DIR env) | Some c \<Rightarrow> c)
             [] tr of
        (tr', Inl e) \<Rightarrow> (tr', Inl e)
      | (tr', Inr summary_stats) \<Rightarrow> save_summary env summary_stats tr')"

text \<open>
  What one entry of a configuration adds to the calls and what its call gives back, and
  the summary rows of a whole configuration.
\<close>

definition entry_events :: "env \<Rightarrow> path \<times> pydict \<Rightarrow> event list" where
  "entry_events env entry = fst (call_crawl_data_from_example env (fst entry) (snd entry) [])"

definition entry_result :: "env \<Rightarrow> path \<times> pydict \<Rightarrow> py_raise + sampling_result option" where
  "entry_result env entry = snd (call_crawl_data_from_example env (fst entry) (snd entry) [])"

definition entry_summary :: "env \<Rightarrow> path \<times> pydict \<Rightarrow> pydict list" where
  "entry_summary env entry =
     (case entry_result env entry of
        Inr (Some sampling_result) \<Rightarrow> [summary_row (fst entry) sampling_result]
      | _ \<Rightarrow> [])"

section \<open>Concrete inputs\<close>

text \<open>
  Small nodes, sibling collections and an environment on which the theorems below are
  instantiated. In \<open>example_env outcome\<close> only \<open>examples/sum.lua\<close> and
  \<open>examples/pid.lua\<close> exist, and the sampler appends two rows to the accumulator and then
  ends as \<open>outcome\<close> says: it returns, or it raises the exception given.
\<close>

definition example_root :: nitta_node where
  "example_root =
     \<lparr>sid = ''-'', decision_tag = ''RootView'', score = 1010, is_terminal = False, parameters = PNone\<rparr>"

definition example_bind :: nitta_node where
  "example_bind =
     \<lparr>sid = ''-0'', decision_tag = ''SingleBindView'', score = 1032, is_terminal = False,
      parameters = PDict [(''tag'', PStr ''BindMetrics''), (''pCritical'', PBool False), (''pAlternative'', PInt 2)]\<rparr>"

definition example_bind_without_tag :: nitta_node where
  "example_bind_without_tag =
     \<lparr>sid = ''-0'', decision_tag = ''SingleBindView'', score = 1032, is_terminal = False,
      parameters = PDict [(''pCritical'', PBool False), (''pAlternative'', PInt 2)]\<rparr>"

definition example_dataflow :: nitta_node where
  "example_dataflow =
     \<lparr>sid = ''-1'', decision_tag = ''DataflowDecisionView'', score = 2000, is_terminal = False,
      parameters = PDict [(''pWaitTime'', PInt 1), (''pNotTransferableInputs'', PList [PInt 1, PInt 0, PInt 2])]\<rparr>"

definition example_dataflow_with_tag :: nitta_node where
  "example_dataflow_with_tag =
     \<lparr>sid = ''-1'', decision_tag = ''DataflowDecisionView'', score = 2000, is_terminal = False,
      parameters = PDict [(''tag'', PStr ''DataflowMetrics''), (''pNotTransferableInputs'', PList [])]\<rparr>"

definition example_refactoring :: nitta_node where
  "example_refactoring =
     \<lparr>sid = ''-2'', decision_tag = ''BreakLoopView'', score = 5000, is_terminal = False, parameters = PNone\<rparr>"

definition example_malformed_bind :: nitta_node where
  "example_malformed_bind =
     \<lparr>sid = ''-3'', decision_tag = ''GroupBindView'', score = 0, is_terminal = False,
      parameters = PList [PInt 1]\<rparr>"

definition example_rows :: "pydict list" where
  "example_rows = [[(''sid'', PStr ''-'')], [(''sid'', PStr ''-0'')]]"

definition example_env :: "py_raise option \<Rightarrow> env" where
  "example_env outcome =
     \<lparr>path_exists = (\<lambda>p. p = [''examples'', ''sum.lua''] \<or> p = [''examples'', ''pid.lua'']),
      run_synthesis_tree_sampling = (\<lambda>example kw acc. (acc @ example_rows, outcome)),
      process_and_save_sampling_results =
        (\<lambda>example rows data_dir. Inr \<lparr>stats = [(''rows'', PInt (int (length rows)))]\<rparr>),
      save_dicts_list_to_csv_with_timestamp = (\<lambda>rows data_dir label. None),
      DATA_DIR = [''data''],
      EXAMPLES_DIR = [''examples'']\<rparr>"

section \<open>Keyword merging and lookup\<close>

lemma kwargs_merge_Inr: "kwargs_merge acc d = Inr r \<Longrightarrow> r = acc @ d"
proof (induction d arbitrary: acc)
  case Nil
  then show ?case by simp
next
  case (Cons p d)
  obtain k v where p: "p = (k, v)" by (cases p)
  from Cons.prems p have "kwargs_merge (acc @ [(k, v)]) d = Inr r"
    by (simp split: if_splits)
  from Cons.IH [OF this] p show ?case by simp
qed

lemma kwargs_merge_ok:
  "distinct (keys d) \<Longrightarrow> set (keys acc) \<inter> set (keys d) = {} \<Longrightarrow> kwargs_merge acc d = Inr (acc @ d)"
  by (induction d arbitrary: acc) (auto simp: keys_def)

lemma kwargs_merge_collision:
  "k \<in> set (keys d) \<Longrightarrow> k \<in> set (keys acc) \<Longrightarrow> \<exists>k'. kwargs_merge acc d = Inl (TypeError k')"
proof (induction d arbitrary: acc)
  case Nil
  then show ?case by (simp add: keys_def)
next
  case (Cons p d)
  obtain k0 v where p: "p = (k0, v)" by (cases p)
  show ?case
  proof (cases "k0 \<in> set (keys acc)")
    case True
    with p show ?thesis by simp
  next
    case False
    with Cons.prems p have "k \<in> set (keys d)" and "k \<in> set (keys (acc @ [(k0, v)]))"
      by (auto simp: keys_def)
    from Cons.IH [OF this] False p show ?thesis by simp
  qed
qed

lemma kwargs_merge_lookup_new:
  assumes "kwargs_merge acc d = Inr r" and "k \<in> set (keys d)"
  shows "map_of r k = map_of d k"
proof -
  have r: "r = acc @ d" using assms(1) by (rule kwargs_merge_Inr)
  have "k \<notin> set (keys acc)"
    using kwargs_merge_collision [OF assms(2), of acc] assms(1) by auto
  then have "map_of acc k = None"
    by (simp add: keys_def map_of_eq_None_iff)
  with r show ?thesis by (simp add: map_add_def)
qed

lemma kwargs_merge_lookup_old:
  assumes "kwargs_merge acc d = Inr r" and "map_of acc k = Some v"
  shows "map_of r k = Some v"
proof -
  have r: "r = acc @ d" using assms(1) by (rule kwargs_merge_Inr)
  with assms(2) show ?thesis by (simp add: map_add_def)
qed

lemma keys_update_present:
  "k \<in> set (keys d) \<Longrightarrow> keys (AList.update k v d) = keys d"
  by (induction d) (auto simp: keys_def)

lemma map_of_present: "map_of d k = Some v \<Longrightarrow> k \<in> set (keys d)"
  by (auto simp: keys_def dest: map_of_SomeD intro: rev_image_eqI)

lemma sum_from_ints: "map as_int vs = map Some xs \<Longrightarrow> sum_from acc vs = Inr (acc + sum_list xs)"
  by (induction vs arbitrary: acc xs) (auto simp: add.assoc)

lemma known_tags:
  "set (DATAFLOW_DECISION_TAGS @ BIND_DECISION_TAGS) = {''DataflowDecisionView'', ''SingleBindView'', ''GroupBindView''}"
  "set DATAFLOW_DECISION_TAGS = {''DataflowDecisionView''}"
  "set BIND_DECISION_TAGS = {''SingleBindView'', ''GroupBindView''}"
  by (auto simp: DATAFLOW_DECISION_TAGS_def BIND_DECISION_TAGS_def SINGLE_BIND_DECISION_TAG_def GROUP_BIND_DECISION_TAG_def)


section \<open>The alternative counts and the fixed fields of a row\<close>

lemma count_siblings_explicit:
  "count_siblings node sibs
     [(''alt_bindings'', a), (''alt_group_bindings'', b), (''alt_dataflows'', c), (''alt_refactorings'', d)] =
     [(''alt_bindings'', a + int (length (filter (\<lambda>s. decision_tag s = ''SingleBindView'') (filter (\<lambda>s. sid s \<noteq> sid node) sibs)))),
      (''alt_group_bindings'', b + int (length (filter (\<lambda>s. decision_tag s = ''GroupBindView'')  (filter (\<lambda>s. sid s \<noteq> sid node) sibs)))),
      (''alt_dataflows'', c + int (length (filter (\<lambda>s. decision_tag s = ''DataflowDecisionView'')  (filter (\<lambda>s. sid s \<noteq> sid node) sibs)))),
      (''alt_refactorings'', d + int (length (filter (\<lambda>s. decision_tag s \<notin> {''SingleBindView'', ''GroupBindView'', ''DataflowDecisionView''})  (filter (\<lambda>s. sid s \<noteq> sid node) sibs))))]"
  by (induction sibs arbitrary: a b c d)
     (simp_all add: SINGLE_BIND_DECISION_TAG_def GROUP_BIND_DECISION_TAG_def DATAFLOW_DECISION_TAGS_def)

lemma four_buckets_partition:
  "length (filter (\<lambda>s. decision_tag s = ''SingleBindView'') xs)
   + length (filter (\<lambda>s. decision_tag s = ''GroupBindView'') xs)
   + length (filter (\<lambda>s. decision_tag s = ''DataflowDecisionView'') xs)
   + length (filter (\<lambda>s. decision_tag s \<notin> {''SingleBindView'', ''GroupBindView'', ''DataflowDecisionView''}) xs)
   = length xs"
  by (induction xs) auto

lemma alternative_siblings_explicit:
  "extract_alternative_siblings_dict node sibs =
     [(''alt_bindings'', int (length (filter (\<lambda>s. decision_tag s = ''SingleBindView'') (filter (\<lambda>s. sid s \<noteq> sid node) sibs)))),
      (''alt_group_bindings'', int (length (filter (\<lambda>s. decision_tag s = ''GroupBindView'')  (filter (\<lambda>s. sid s \<noteq> sid node) sibs)))),
      (''alt_dataflows'', int (length (filter (\<lambda>s. decision_tag s = ''DataflowDecisionView'')  (filter (\<lambda>s. sid s \<noteq> sid node) sibs)))),
      (''alt_refactorings'', int (length (filter (\<lambda>s. decision_tag s \<notin> {''SingleBindView'', ''GroupBindView'', ''DataflowDecisionView''})  (filter (\<lambda>s. sid s \<noteq> sid node) sibs))))]"
  unfolding extract_alternative_siblings_dict_def by (simp add: count_siblings_explicit)

lemma keys_alternative_siblings:
  "keys (extract_alternative_siblings_dict node sibs) =
     [''alt_bindings'', ''alt_group_bindings'', ''alt_dataflows'', ''alt_refactorings'']"
  by (simp add: alternative_siblings_explicit keys_def)

lemma keys_row_prefix:
  "keys (row_prefix node sibs ex) =
     [''example'', ''sid'', ''tag'', ''old_score'', ''is_terminal'',
      ''alt_bindings'', ''alt_group_bindings'', ''alt_dataflows'', ''alt_refactorings'']"
  by (simp add: row_prefix_def alternative_siblings_explicit keys_def base_fields_def)

lemma merge_prefix:
  "kwargs_merge (base_fields node ex) (map (\<lambda>(k, c). (k, PInt c)) (extract_alternative_siblings_dict node sibs))
     = Inr (row_prefix node sibs ex)"
  by (simp add: row_prefix_def alternative_siblings_explicit keys_def base_fields_def)

lemma nitta_node_to_df_dict_unfold:
  "nitta_node_to_df_dict node sibs ex =
     (case extract_params_dict node of
        Inl e \<Rightarrow> Inl e
      | Inr params \<Rightarrow> kwargs_merge (row_prefix node sibs ex) params)"
  by (simp add: nitta_node_to_df_dict_def merge_prefix)


section \<open>The crawl loop\<close>

lemma call_sampling_trace:
  "call_run_synthesis_tree_sampling env example results kw tr =
     (tr @ fst (call_run_synthesis_tree_sampling env example results kw []),
      snd (call_run_synthesis_tree_sampling env example results kw []))"
  by (simp add: call_run_synthesis_tree_sampling_def split: prod.splits)

lemma crawl_example_trace:
  "crawl_data_from_example env example dd kw tr =
     (tr @ fst (crawl_data_from_example env example dd kw []),
      snd (crawl_data_from_example env example dd kw []))"
  unfolding crawl_data_from_example_def
  by (subst call_sampling_trace) (simp split: prod.splits option.splits)

lemma call_crawl_trace:
  "call_crawl_data_from_example env example kwargs tr =
     (tr @ entry_events env (example, kwargs), entry_result env (example, kwargs))"
  unfolding call_crawl_data_from_example_def entry_events_def entry_result_def
  by (subst crawl_example_trace) (simp add: call_crawl_data_from_example_def)

lemma crawl_loop_append:
  "crawl_loop env (cfg1 @ cfg2) summary tr =
     (case crawl_loop env cfg1 summary tr of
        (tr', Inl e) \<Rightarrow> (tr', Inl e)
      | (tr', Inr summary') \<Rightarrow> crawl_loop env cfg2 summary' tr')"
  by (induction cfg1 arbitrary: summary tr) (auto split: prod.splits sum.splits option.splits)

lemma crawl_loop_all_return:
  "\<forall>entry \<in> set cfg. \<exists>res. entry_result env entry = Inr res \<Longrightarrow>
   crawl_loop env cfg summary tr =
     (tr @ concat (map (entry_events env) cfg), Inr (summary @ concat (map (entry_summary env) cfg)))"
proof (induction cfg arbitrary: summary tr)
  case Nil
  then show ?case by simp
next
  case (Cons entry cfg)
  obtain p kw where e: "entry = (p, kw)" by (cases entry)
  from Cons.prems obtain res where res: "entry_result env (p, kw) = Inr res"
    by (auto simp: e)
  have rest: "\<forall>entry \<in> set cfg. \<exists>res. entry_result env entry = Inr res"
    using Cons.prems by simp
  show ?case
    by (cases res) (simp_all add: e call_crawl_trace res Cons.IH [OF rest] entry_summary_def)
qed

lemma crawl_loop_raises:
  "entry_result env entry = Inl e \<Longrightarrow>
   crawl_loop env (entry # rest) summary tr = (tr @ entry_events env entry, Inl e)"
  by (cases entry) (simp add: call_crawl_trace)

lemma entry_events_not_saved: "ev \<in> set (entry_events env entry) \<Longrightarrow> \<not> is_SavedSummary ev"
  by (auto simp: entry_events_def call_crawl_data_from_example_def crawl_data_from_example_def
      call_run_synthesis_tree_sampling_def split: if_splits prod.splits option.splits)


lemma driver_finishes:
  assumes "path_exists env example"
    and "''results_accum'' \<notin> set (keys runner_kwargs)"
    and "run_synthesis_tree_sampling env example runner_kwargs [] = (rows, outcome)"
    and "\<forall>e. outcome = Some e \<longrightarrow> handled e"
  shows "crawl_data_from_example env example data_dir runner_kwargs tr =
           (tr @ [Sampled example runner_kwargs, Processed example rows data_dir],
            map_sum id Some (process_and_save_sampling_results env example rows data_dir))"
  using assms
  by (cases outcome) (simp_all add: crawl_data_from_example_def call_run_synthesis_tree_sampling_def)

lemma driver_call_finishes:
  assumes "path_exists env example"
    and "''example'' \<notin> set (keys kwargs)"
    and "''results_accum'' \<notin> set (keys kwargs)"
    and "run_synthesis_tree_sampling env example (AList.delete ''data_dir'' kwargs) [] = (rows, outcome)"
    and "\<forall>e. outcome = Some e \<longrightarrow> handled e"
    and "data_dir = (case map_of kwargs ''data_dir'' of None \<Rightarrow> PPath (DATA_DIR env) | Some d \<Rightarrow> d)"
  shows "call_crawl_data_from_example env example kwargs tr =
           (tr @ [Sampled example (AList.delete ''data_dir'' kwargs), Processed example rows data_dir],
            map_sum id Some (process_and_save_sampling_results env example rows data_dir))"
proof -
  have "''results_accum'' \<notin> set (keys (AList.delete ''data_dir'' kwargs))"
    using assms(3) by (simp add: keys_def AList.delete_keys)
  from driver_finishes [OF assms(1) this assms(4,5)] assms(2,6)
  show ?thesis by (simp add: call_crawl_data_from_example_def)
qed

section \<open>Unfolding for concrete inputs\<close>

lemmas example_node_defs = example_root_def example_bind_def example_bind_without_tag_def
  example_dataflow_def example_dataflow_with_tag_def example_refactoring_def example_malformed_bind_def

lemmas extractor_defs = nitta_node_to_df_dict_def extract_params_dict_def
  extract_alternative_siblings_dict_def base_fields_def keys_def row_prefix_def
  SINGLE_BIND_DECISION_TAG_def GROUP_BIND_DECISION_TAG_def BIND_DECISION_TAGS_def DATAFLOW_DECISION_TAGS_def

lemmas crawl_defs = crawl_data_from_many_examples_def call_crawl_data_from_example_def
  crawl_data_from_example_def call_run_synthesis_tree_sampling_def save_summary_def summary_row_def
  path_name_def keys_def example_env_def example_rows_def entry_result_def entry_events_def entry_summary_def


section \<open>Properties of the feature extractor\<close>

text \<open>
  Claim C2, as the code has it. For a SingleBind or GroupBind node whose parameters are a
  dictionary: when the dictionary has the key \<open>tag\<close>, the extracted parameters are the
  dictionary without it, the \<open>tag\<close> field of any row produced is the node's decision tag,
  and every other parameter is copied; when the dictionary lacks \<open>tag\<close>, \<open>del\<close> raises
  \<open>KeyError\<close> and no row is produced.
\<close>

theorem bind_tag_parameter_dropped_when_present:
  assumes "decision_tag node \<in> set BIND_DECISION_TAGS"
    and "parameters node = PDict ps"
  shows "(''tag'' \<in> set (keys ps) \<longrightarrow>
            extract_params_dict node = Inr (AList.delete ''tag'' ps)
          \<and> ''tag'' \<notin> set (keys (AList.delete ''tag'' ps))
          \<and> (\<forall>row. nitta_node_to_df_dict node siblings example = Inr row \<longrightarrow>
                map_of row ''tag'' = Some (PStr (decision_tag node))
              \<and> (\<forall>k \<in> set (keys ps). k \<noteq> ''tag'' \<longrightarrow> map_of row k = map_of ps k)))
       \<and> (''tag'' \<notin> set (keys ps) \<longrightarrow>
            extract_params_dict node = Inl (KeyError ''tag'')
          \<and> nitta_node_to_df_dict node siblings example = Inl (KeyError ''tag''))"
proof (intro conjI impI)
  assume t: "''tag'' \<in> set (keys ps)"
  show p: "extract_params_dict node = Inr (AList.delete ''tag'' ps)"
    using assms t by (auto simp: extract_params_dict_def known_tags)
  show "''tag'' \<notin> set (keys (AList.delete ''tag'' ps))"
    using AList.delete_notin_dom [of "''tag''" ps] by (simp add: keys_def)
  show "\<forall>row. nitta_node_to_df_dict node siblings example = Inr row \<longrightarrow>
                map_of row ''tag'' = Some (PStr (decision_tag node))
              \<and> (\<forall>k \<in> set (keys ps). k \<noteq> ''tag'' \<longrightarrow> map_of row k = map_of ps k)"
  proof (intro allI impI conjI ballI)
    fix row assume "nitta_node_to_df_dict node siblings example = Inr row"
    with p have m: "kwargs_merge (row_prefix node siblings example) (AList.delete ''tag'' ps) = Inr row"
      by (simp add: nitta_node_to_df_dict_unfold)
    show "map_of row ''tag'' = Some (PStr (decision_tag node))"
      by (rule kwargs_merge_lookup_old [OF m]) (simp add: row_prefix_def base_fields_def)
    fix k assume k: "k \<in> set (keys ps)" "k \<noteq> ''tag''"
    then have "k \<in> set (keys (AList.delete ''tag'' ps))"
      by (simp add: keys_def AList.delete_keys)
    from kwargs_merge_lookup_new [OF m this] k(2) show "map_of row k = map_of ps k" by simp
  qed
next
  assume t: "''tag'' \<notin> set (keys ps)"
  show p: "extract_params_dict node = Inl (KeyError ''tag'')"
    using assms t by (auto simp: extract_params_dict_def known_tags)
  show "nitta_node_to_df_dict node siblings example = Inl (KeyError ''tag'')"
    by (simp add: nitta_node_to_df_dict_unfold p)
qed

text \<open>
  A SingleBind node whose parameters have no \<open>tag\<close>: the extractor raises \<open>KeyError\<close>
  instead of producing a row.
\<close>

theorem bind_without_tag_counterexample:
  "decision_tag example_bind_without_tag \<in> set BIND_DECISION_TAGS
   \<and> parameters example_bind_without_tag = PDict [(''pCritical'', PBool False), (''pAlternative'', PInt 2)]
   \<and> nitta_node_to_df_dict example_bind_without_tag [] None = Inl (KeyError ''tag'')"
  by (simp add: extractor_defs example_node_defs)

theorem bind_tag_parameter_dropped_when_present_witness:
  "decision_tag example_bind \<in> set BIND_DECISION_TAGS
   \<and> parameters example_bind =
        PDict [(''tag'', PStr ''BindMetrics''), (''pCritical'', PBool False), (''pAlternative'', PInt 2)]
   \<and> extract_params_dict example_bind = Inr [(''pCritical'', PBool False), (''pAlternative'', PInt 2)]
   \<and> (\<exists>row. nitta_node_to_df_dict example_bind [] None = Inr row
        \<and> map_of row ''tag'' = Some (PStr ''SingleBindView'')
        \<and> map_of row ''pCritical'' = Some (PBool False)
        \<and> map_of row ''pAlternative'' = Some (PInt 2))
   \<and> decision_tag example_bind_without_tag \<in> set BIND_DECISION_TAGS
   \<and> extract_params_dict example_bind_without_tag = Inl (KeyError ''tag'')"
proof -
  let ?ps = "[(''tag'', PStr ''BindMetrics''), (''pCritical'', PBool False), (''pAlternative'', PInt 2)]"
  let ?qs = "[(''pCritical'', PBool False), (''pAlternative'', PInt 2)]"
  have t: "decision_tag example_bind \<in> set BIND_DECISION_TAGS"
    by (simp add: example_bind_def extractor_defs)
  have p: "parameters example_bind = PDict ?ps" by (simp add: example_bind_def)
  have k: "''tag'' \<in> set (keys ?ps)" by (simp add: keys_def)
  from bind_tag_parameter_dropped_when_present [OF t p, of "[]" None] k
  have e: "extract_params_dict example_bind = Inr (AList.delete ''tag'' ?ps)"
    and r: "\<forall>row. nitta_node_to_df_dict example_bind [] None = Inr row \<longrightarrow>
                map_of row ''tag'' = Some (PStr (decision_tag example_bind))
              \<and> (\<forall>k \<in> set (keys ?ps). k \<noteq> ''tag'' \<longrightarrow> map_of row k = map_of ?ps k)"
    by blast+
  obtain row where row: "nitta_node_to_df_dict example_bind [] None = Inr row"
    by (simp add: extractor_defs example_node_defs)
  from r row have "map_of row ''tag'' = Some (PStr ''SingleBindView'')
        \<and> map_of row ''pCritical'' = Some (PBool False)
        \<and> map_of row ''pAlternative'' = Some (PInt 2)"
    by (simp add: keys_def example_bind_def)
  with row have ex: "\<exists>row. nitta_node_to_df_dict example_bind [] None = Inr row
        \<and> map_of row ''tag'' = Some (PStr ''SingleBindView'')
        \<and> map_of row ''pCritical'' = Some (PBool False)
        \<and> map_of row ''pAlternative'' = Some (PInt 2)"
    by blast
  have t': "decision_tag example_bind_without_tag \<in> set BIND_DECISION_TAGS"
    by (simp add: example_bind_without_tag_def extractor_defs)
  have p': "parameters example_bind_without_tag = PDict ?qs" by (simp add: example_bind_without_tag_def)
  have k': "''tag'' \<notin> set (keys ?qs)" by (simp add: keys_def)
  from bind_tag_parameter_dropped_when_present [OF t' p', of "[]" None] k'
  have e': "extract_params_dict example_bind_without_tag = Inl (KeyError ''tag'')"
    by blast
  from t p e ex t' e' show ?thesis by simp
qed

text \<open>
  Claim C3. For a Dataflow node whose parameters hold a list of numbers under
  \<open>pNotTransferableInputs\<close>, the extracted parameters carry the sum of the list in that
  field (0 for the empty list), every row produced has that sum there and every other
  parameter unchanged, and a row is produced whenever the parameter keys are distinct and
  collide with none of the nine fixed fields.
\<close>

theorem dataflow_inputs_are_summed:
  assumes "decision_tag node \<in> set DATAFLOW_DECISION_TAGS"
    and "parameters node = PDict ps"
    and "map_of ps ''pNotTransferableInputs'' = Some (PList vs)"
    and "map as_int vs = map Some xs"
  shows "extract_params_dict node = Inr (AList.update ''pNotTransferableInputs'' (PInt (sum_list xs)) ps)
    \<and> (vs = [] \<longrightarrow> extract_params_dict node = Inr (AList.update ''pNotTransferableInputs'' (PInt 0) ps))
    \<and> (\<forall>row. nitta_node_to_df_dict node siblings example = Inr row \<longrightarrow>
          map_of row ''pNotTransferableInputs'' = Some (PInt (sum_list xs))
        \<and> (\<forall>k \<in> set (keys ps). k \<noteq> ''pNotTransferableInputs'' \<longrightarrow> map_of row k = map_of ps k))
    \<and> (distinct (keys ps) \<and> set (keys ps) \<inter> set (keys (row_prefix node siblings example)) = {} \<longrightarrow>
          nitta_node_to_df_dict node siblings example =
            Inr (row_prefix node siblings example @ AList.update ''pNotTransferableInputs'' (PInt (sum_list xs)) ps))"
proof -
  let ?K = "''pNotTransferableInputs''"
  let ?params = "AList.update ?K (PInt (sum_list xs)) ps"
  have s: "py_sum (PList vs) = Inr (PInt (sum_list xs))"
    using sum_from_ints [OF assms(4), of 0] by simp
  have p: "extract_params_dict node = Inr ?params"
    using assms(1-3) s by (simp add: extract_params_dict_def known_tags)
  have K: "?K \<in> set (keys ps)" using assms(3) by (rule map_of_present)
  have ks: "keys ?params = keys ps" using K by (rule keys_update_present)
  have e: "vs = [] \<longrightarrow> extract_params_dict node = Inr (AList.update ?K (PInt 0) ps)"
    using p assms(4) by auto
  have r: "map_of row ?K = Some (PInt (sum_list xs))
        \<and> (\<forall>k \<in> set (keys ps). k \<noteq> ?K \<longrightarrow> map_of row k = map_of ps k)"
    if "nitta_node_to_df_dict node siblings example = Inr row" for row
  proof -
    from that p have m: "kwargs_merge (row_prefix node siblings example) ?params = Inr row"
      by (simp add: nitta_node_to_df_dict_unfold)
    have "map_of row k = map_of ?params k" if "k \<in> set (keys ps)" for k
      using kwargs_merge_lookup_new [OF m, of k] that ks by simp
    then show ?thesis using K by (simp add: AList.update_conv')
  qed
  have d: "nitta_node_to_df_dict node siblings example = Inr (row_prefix node siblings example @ ?params)"
    if "distinct (keys ps) \<and> set (keys ps) \<inter> set (keys (row_prefix node siblings example)) = {}"
  proof -
    have "kwargs_merge (row_prefix node siblings example) ?params = Inr (row_prefix node siblings example @ ?params)"
      by (rule kwargs_merge_ok) (use that ks in \<open>auto simp: Int_commute\<close>)
    then show ?thesis by (simp add: nitta_node_to_df_dict_unfold p)
  qed
  show ?thesis using p e r d by blast
qed

theorem dataflow_inputs_are_summed_witness:
  "decision_tag example_dataflow \<in> set DATAFLOW_DECISION_TAGS
   \<and> parameters example_dataflow =
        PDict [(''pWaitTime'', PInt 1), (''pNotTransferableInputs'', PList [PInt 1, PInt 0, PInt 2])]
   \<and> extract_params_dict example_dataflow = Inr [(''pWaitTime'', PInt 1), (''pNotTransferableInputs'', PInt 3)]
   \<and> nitta_node_to_df_dict example_dataflow [example_bind, example_dataflow, example_refactoring] None =
       Inr [(''example'', PNone), (''sid'', PStr ''-1''), (''tag'', PStr ''DataflowDecisionView''),
            (''old_score'', PInt 2000), (''is_terminal'', PBool False),
            (''alt_bindings'', PInt 1), (''alt_group_bindings'', PInt 0),
            (''alt_dataflows'', PInt 0), (''alt_refactorings'', PInt 1),
            (''pWaitTime'', PInt 1), (''pNotTransferableInputs'', PInt 3)]"
proof -
  let ?ps = "[(''pWaitTime'', PInt 1), (''pNotTransferableInputs'', PList [PInt 1, PInt 0, PInt 2])]"
  let ?sibs = "[example_bind, example_dataflow, example_refactoring]"
  have t: "decision_tag example_dataflow \<in> set DATAFLOW_DECISION_TAGS"
    by (simp add: example_dataflow_def extractor_defs)
  have p: "parameters example_dataflow = PDict ?ps" by (simp add: example_dataflow_def)
  have m: "map_of ?ps ''pNotTransferableInputs'' = Some (PList [PInt 1, PInt 0, PInt 2])" by simp
  have x: "map as_int [PInt 1, PInt 0, PInt 2] = map Some [1, 0, 2]" by simp
  have d: "distinct (keys ?ps) \<and> set (keys ?ps) \<inter> set (keys (row_prefix example_dataflow ?sibs None)) = {}"
    by (simp add: keys_row_prefix) (simp add: keys_def)
  have pre: "row_prefix example_dataflow ?sibs None =
       [(''example'', PNone), (''sid'', PStr ''-1''), (''tag'', PStr ''DataflowDecisionView''),
            (''old_score'', PInt 2000), (''is_terminal'', PBool False),
            (''alt_bindings'', PInt 1), (''alt_group_bindings'', PInt 0),
            (''alt_dataflows'', PInt 0), (''alt_refactorings'', PInt 1)]"
    by (simp add: extractor_defs example_node_defs)
  from dataflow_inputs_are_summed [OF t p m x, of ?sibs None] d
  have "extract_params_dict example_dataflow = Inr (AList.update ''pNotTransferableInputs'' (PInt (sum_list [1, 0, 2])) ?ps)"
    and "nitta_node_to_df_dict example_dataflow ?sibs None =
            Inr (row_prefix example_dataflow ?sibs None @ AList.update ''pNotTransferableInputs'' (PInt (sum_list [1, 0, 2])) ?ps)"
    by blast+
  with t p pre show ?thesis by simp
qed

text \<open>
  Claim C4. The four alternative counts are the numbers of siblings, among those whose
  \<open>sid\<close> differs from the node's, with tag \<open>SingleBindView\<close>, with tag \<open>GroupBindView\<close>,
  with tag \<open>DataflowDecisionView\<close>, and with any other tag; they add up to the number of
  siblings whose \<open>sid\<close> differs from the node's; and they are the values of the four
  \<open>alt_\<close> fields of every row produced.
\<close>

theorem alternative_counts_partition:
  "\<exists>a b c d.
     extract_alternative_siblings_dict node siblings =
       [(''alt_bindings'', a), (''alt_group_bindings'', b), (''alt_dataflows'', c), (''alt_refactorings'', d)]
     \<and> a = int (length (filter (\<lambda>s. sid s \<noteq> sid node \<and> decision_tag s = ''SingleBindView'') siblings))
     \<and> b = int (length (filter (\<lambda>s. sid s \<noteq> sid node \<and> decision_tag s = ''GroupBindView'') siblings))
     \<and> c = int (length (filter (\<lambda>s. sid s \<noteq> sid node \<and> decision_tag s = ''DataflowDecisionView'') siblings))
     \<and> d = int (length (filter (\<lambda>s. sid s \<noteq> sid node \<and>
              decision_tag s \<notin> {''SingleBindView'', ''GroupBindView'', ''DataflowDecisionView''}) siblings))
     \<and> a + b + c + d = int (length (filter (\<lambda>s. sid s \<noteq> sid node) siblings))
     \<and> (\<forall>row. nitta_node_to_df_dict node siblings example = Inr row \<longrightarrow>
           map_of row ''alt_bindings'' = Some (PInt a)
         \<and> map_of row ''alt_group_bindings'' = Some (PInt b)
         \<and> map_of row ''alt_dataflows'' = Some (PInt c)
         \<and> map_of row ''alt_refactorings'' = Some (PInt d))"
proof -
  let ?others = "filter (\<lambda>s. sid s \<noteq> sid node) siblings"
  let ?a = "int (length (filter (\<lambda>s. decision_tag s = ''SingleBindView'') ?others))"
  let ?b = "int (length (filter (\<lambda>s. decision_tag s = ''GroupBindView'') ?others))"
  let ?c = "int (length (filter (\<lambda>s. decision_tag s = ''DataflowDecisionView'') ?others))"
  let ?d = "int (length (filter (\<lambda>s. decision_tag s \<notin> {''SingleBindView'', ''GroupBindView'', ''DataflowDecisionView''}) ?others))"
  have alts: "extract_alternative_siblings_dict node siblings =
       [(''alt_bindings'', ?a), (''alt_group_bindings'', ?b), (''alt_dataflows'', ?c), (''alt_refactorings'', ?d)]"
    by (rule alternative_siblings_explicit)
  have total: "?a + ?b + ?c + ?d = int (length ?others)"
    using four_buckets_partition [of ?others] by linarith
  have fa: "?a = int (length (filter (\<lambda>s. sid s \<noteq> sid node \<and> decision_tag s = ''SingleBindView'') siblings))"
    by (simp add: conj_commute)
  have fb: "?b = int (length (filter (\<lambda>s. sid s \<noteq> sid node \<and> decision_tag s = ''GroupBindView'') siblings))"
    by (simp add: conj_commute)
  have fc: "?c = int (length (filter (\<lambda>s. sid s \<noteq> sid node \<and> decision_tag s = ''DataflowDecisionView'') siblings))"
    by (simp add: conj_commute)
  have fd: "?d = int (length (filter (\<lambda>s. sid s \<noteq> sid node \<and>
              decision_tag s \<notin> {''SingleBindView'', ''GroupBindView'', ''DataflowDecisionView''}) siblings))"
    by (simp add: conj_commute)
  have row: "map_of row ''alt_bindings'' = Some (PInt ?a)
         \<and> map_of row ''alt_group_bindings'' = Some (PInt ?b)
         \<and> map_of row ''alt_dataflows'' = Some (PInt ?c)
         \<and> map_of row ''alt_refactorings'' = Some (PInt ?d)"
    if "nitta_node_to_df_dict node siblings example = Inr row" for row
  proof -
    from that obtain params where m: "kwargs_merge (row_prefix node siblings example) params = Inr row"
      by (auto simp: nitta_node_to_df_dict_unfold split: sum.splits)
    have pre: "row_prefix node siblings example =
       base_fields node example @
       [(''alt_bindings'', PInt ?a), (''alt_group_bindings'', PInt ?b), (''alt_dataflows'', PInt ?c), (''alt_refactorings'', PInt ?d)]"
      unfolding row_prefix_def alts by simp
    show ?thesis
      by (intro conjI; rule kwargs_merge_lookup_old [OF m]) (simp_all add: pre base_fields_def)
  qed
  show ?thesis
    apply (rule exI [of _ ?a], rule exI [of _ ?b], rule exI [of _ ?c], rule exI [of _ ?d])
    using alts total fa fb fc fd row by blast
qed

theorem alternative_counts_partition_witness:
  "extract_alternative_siblings_dict example_root [example_bind, example_dataflow, example_root, example_refactoring] =
     [(''alt_bindings'', 1), (''alt_group_bindings'', 0), (''alt_dataflows'', 1), (''alt_refactorings'', 1)]
   \<and> length (filter (\<lambda>s. sid s \<noteq> sid example_root) [example_bind, example_dataflow, example_root, example_refactoring]) = 3
   \<and> (\<exists>row. nitta_node_to_df_dict example_root [example_bind, example_dataflow, example_root, example_refactoring] None = Inr row
        \<and> map_of row ''alt_bindings'' = Some (PInt 1)
        \<and> map_of row ''alt_group_bindings'' = Some (PInt 0)
        \<and> map_of row ''alt_dataflows'' = Some (PInt 1)
        \<and> map_of row ''alt_refactorings'' = Some (PInt 1))"
proof -
  let ?sibs = "[example_bind, example_dataflow, example_root, example_refactoring]"
  obtain a b c d where
    alts: "extract_alternative_siblings_dict example_root ?sibs =
       [(''alt_bindings'', a), (''alt_group_bindings'', b), (''alt_dataflows'', c), (''alt_refactorings'', d)]"
    and total: "a + b + c + d = int (length (filter (\<lambda>s. sid s \<noteq> sid example_root) ?sibs))"
    and row: "\<forall>row. nitta_node_to_df_dict example_root ?sibs None = Inr row \<longrightarrow>
           map_of row ''alt_bindings'' = Some (PInt a)
         \<and> map_of row ''alt_group_bindings'' = Some (PInt b)
         \<and> map_of row ''alt_dataflows'' = Some (PInt c)
         \<and> map_of row ''alt_refactorings'' = Some (PInt d)"
    using alternative_counts_partition [of example_root ?sibs None] by blast
  have ev: "extract_alternative_siblings_dict example_root ?sibs =
     [(''alt_bindings'', 1), (''alt_group_bindings'', 0), (''alt_dataflows'', 1), (''alt_refactorings'', 1)]"
    by (simp add: extractor_defs example_node_defs)
  from alts ev have abcd: "a = 1" "b = 0" "c = 1" "d = 1" by simp_all
  have len: "length (filter (\<lambda>s. sid s \<noteq> sid example_root) ?sibs) = 3"
    using total abcd by simp
  obtain r where r: "nitta_node_to_df_dict example_root ?sibs None = Inr r"
    by (simp add: extractor_defs example_node_defs)
  from row r abcd ev len show ?thesis by simp
qed

text \<open>
  Claim C5. For a node with tag \<open>RootView\<close> the row is always produced and consists of the
  five base fields and the four alternative counts, with no parameter field. With score
  1010 and two children of which exactly one has another \<open>sid\<close> than the node, that one a
  \<open>SingleBindView\<close>, the counts are 1, 0, 0, 0.
\<close>

theorem root_row_has_no_parameter_fields:
  assumes "decision_tag node = ''RootView''"
  shows "extract_params_dict node = Inr []
    \<and> nitta_node_to_df_dict node siblings example = Inr (row_prefix node siblings example)
    \<and> keys (row_prefix node siblings example) =
         [''example'', ''sid'', ''tag'', ''old_score'', ''is_terminal'',
          ''alt_bindings'', ''alt_group_bindings'', ''alt_dataflows'', ''alt_refactorings'']
    \<and> (\<forall>s. score node = 1010 \<and> length siblings = 2 \<and> filter (\<lambda>x. sid x \<noteq> sid node) siblings = [s]
            \<and> decision_tag s = ''SingleBindView'' \<longrightarrow>
         nitta_node_to_df_dict node siblings example =
           Inr [(''example'', (case example of None \<Rightarrow> PNone | Some e \<Rightarrow> PStr e)),
                (''sid'', PStr (sid node)),
                (''tag'', PStr ''RootView''),
                (''old_score'', PInt 1010),
                (''is_terminal'', PBool (is_terminal node)),
                (''alt_bindings'', PInt 1),
                (''alt_group_bindings'', PInt 0),
                (''alt_dataflows'', PInt 0),
                (''alt_refactorings'', PInt 0)])"
proof -
  have p: "extract_params_dict node = Inr []"
    using assms by (simp add: extract_params_dict_def known_tags)
  have r: "nitta_node_to_df_dict node siblings example = Inr (row_prefix node siblings example)"
    by (simp add: nitta_node_to_df_dict_unfold p)
  have e: "row_prefix node siblings example =
           [(''example'', (case example of None \<Rightarrow> PNone | Some e \<Rightarrow> PStr e)),
                (''sid'', PStr (sid node)),
                (''tag'', PStr ''RootView''),
                (''old_score'', PInt 1010),
                (''is_terminal'', PBool (is_terminal node)),
                (''alt_bindings'', PInt 1),
                (''alt_group_bindings'', PInt 0),
                (''alt_dataflows'', PInt 0),
                (''alt_refactorings'', PInt 0)]"
    if "score node = 1010" and "filter (\<lambda>x. sid x \<noteq> sid node) siblings = [s]"
      and "decision_tag s = ''SingleBindView''" for s
    using that assms by (simp add: row_prefix_def base_fields_def alternative_siblings_explicit)
  show ?thesis using p r e keys_row_prefix by simp
qed

theorem root_row_has_no_parameter_fields_witness:
  "decision_tag example_root = ''RootView''
   \<and> extract_params_dict example_root = Inr []
   \<and> nitta_node_to_df_dict example_root [example_bind, example_root] (Some ''test'') =
       Inr [(''example'', PStr ''test''), (''sid'', PStr ''-''), (''tag'', PStr ''RootView''),
            (''old_score'', PInt 1010), (''is_terminal'', PBool False),
            (''alt_bindings'', PInt 1), (''alt_group_bindings'', PInt 0),
            (''alt_dataflows'', PInt 0), (''alt_refactorings'', PInt 0)]"
proof -
  have h: "decision_tag example_root = ''RootView''" by (simp add: example_root_def)
  have s: "score example_root = 1010 \<and> length [example_bind, example_root] = 2
      \<and> filter (\<lambda>x. sid x \<noteq> sid example_root) [example_bind, example_root] = [example_bind]
      \<and> decision_tag example_bind = ''SingleBindView''"
    by (simp add: example_node_defs)
  from root_row_has_no_parameter_fields [OF h, of "[example_bind, example_root]" "Some ''test''"] s
  have "extract_params_dict example_root = Inr []"
    and "nitta_node_to_df_dict example_root [example_bind, example_root] (Some ''test'') =
           Inr [(''example'', PStr ''test''),
                (''sid'', PStr (sid example_root)),
                (''tag'', PStr ''RootView''),
                (''old_score'', PInt 1010),
                (''is_terminal'', PBool (is_terminal example_root)),
                (''alt_bindings'', PInt 1),
                (''alt_group_bindings'', PInt 0),
                (''alt_dataflows'', PInt 0),
                (''alt_refactorings'', PInt 0)]"
    by auto
  then show ?thesis using h by (simp add: example_root_def)
qed

text \<open>
  Claim C6. For a node whose tag is none of \<open>SingleBindView\<close>, \<open>GroupBindView\<close>,
  \<open>DataflowDecisionView\<close>, \<open>RootView\<close>, the extracted parameters are the single field
  \<open>pRefactoringType\<close> holding the tag itself, and the row is the nine fixed fields followed
  by that field.
\<close>

theorem unknown_tag_is_refactoring:
  assumes "decision_tag node \<notin> {''SingleBindView'', ''GroupBindView'', ''DataflowDecisionView'', ''RootView''}"
  shows "extract_params_dict node = Inr [(''pRefactoringType'', PStr (decision_tag node))]
    \<and> nitta_node_to_df_dict node siblings example =
        Inr (row_prefix node siblings example @ [(''pRefactoringType'', PStr (decision_tag node))])"
proof -
  have p: "extract_params_dict node = Inr [(''pRefactoringType'', PStr (decision_tag node))]"
    using assms by (simp add: extract_params_dict_def known_tags)
  show ?thesis
    by (simp add: nitta_node_to_df_dict_unfold p keys_row_prefix)
qed

theorem unknown_tag_is_refactoring_witness:
  "decision_tag example_refactoring \<notin> {''SingleBindView'', ''GroupBindView'', ''DataflowDecisionView'', ''RootView''}
   \<and> extract_params_dict example_refactoring = Inr [(''pRefactoringType'', PStr ''BreakLoopView'')]
   \<and> nitta_node_to_df_dict example_refactoring [example_bind, example_dataflow, example_refactoring] None =
       Inr [(''example'', PNone), (''sid'', PStr ''-2''), (''tag'', PStr ''BreakLoopView''),
            (''old_score'', PInt 5000), (''is_terminal'', PBool False),
            (''alt_bindings'', PInt 1), (''alt_group_bindings'', PInt 0),
            (''alt_dataflows'', PInt 1), (''alt_refactorings'', PInt 0),
            (''pRefactoringType'', PStr ''BreakLoopView'')]"
proof -
  have h: "decision_tag example_refactoring \<notin> {''SingleBindView'', ''GroupBindView'', ''DataflowDecisionView'', ''RootView''}"
    by (simp add: example_refactoring_def)
  have p: "row_prefix example_refactoring [example_bind, example_dataflow, example_refactoring] None =
       [(''example'', PNone), (''sid'', PStr ''-2''), (''tag'', PStr ''BreakLoopView''),
            (''old_score'', PInt 5000), (''is_terminal'', PBool False),
            (''alt_bindings'', PInt 1), (''alt_group_bindings'', PInt 0),
            (''alt_dataflows'', PInt 1), (''alt_refactorings'', PInt 0)]"
    by (simp add: extractor_defs example_node_defs)
  from unknown_tag_is_refactoring [OF h, of "[example_bind, example_dataflow, example_refactoring]" None] h p
  show ?thesis by (simp add: example_refactoring_def)
qed

text \<open>
  Claim C8. For a Bind or Dataflow node whose parameters are not a dictionary the extractor
  raises \<open>AssertionError\<close>, and so does the construction of the row. For every other tag
  the parameters are not looked at: replacing them by any value changes neither the
  extracted parameters nor the row, and both are produced.
\<close>

theorem parameters_contract_check:
  "(decision_tag node \<in> set BIND_DECISION_TAGS \<union> set DATAFLOW_DECISION_TAGS \<and> (\<forall>d. parameters node \<noteq> PDict d) \<longrightarrow>
      extract_params_dict node = Inl (AssertionError ''parameters must be a dict for Bind and Dataflow decisions'')
    \<and> nitta_node_to_df_dict node siblings example =
        Inl (AssertionError ''parameters must be a dict for Bind and Dataflow decisions''))
   \<and> (decision_tag node \<notin> set BIND_DECISION_TAGS \<union> set DATAFLOW_DECISION_TAGS \<longrightarrow>
      (\<exists>params row. extract_params_dict (node\<lparr>parameters := p\<rparr>) = Inr params
         \<and> extract_params_dict node = Inr params
         \<and> nitta_node_to_df_dict (node\<lparr>parameters := p\<rparr>) siblings example = Inr row
         \<and> nitta_node_to_df_dict node siblings example = Inr row))"
proof (intro conjI impI)
  assume a: "decision_tag node \<in> set BIND_DECISION_TAGS \<union> set DATAFLOW_DECISION_TAGS \<and> (\<forall>d. parameters node \<noteq> PDict d)"
  then show e: "extract_params_dict node = Inl (AssertionError ''parameters must be a dict for Bind and Dataflow decisions'')"
    by (cases "parameters node") (auto simp: extract_params_dict_def)
  show "nitta_node_to_df_dict node siblings example =
        Inl (AssertionError ''parameters must be a dict for Bind and Dataflow decisions'')"
    by (simp add: nitta_node_to_df_dict_unfold e)
next
  assume a: "decision_tag node \<notin> set BIND_DECISION_TAGS \<union> set DATAFLOW_DECISION_TAGS"
  let ?params = "if decision_tag node = ''RootView'' then [] else [(''pRefactoringType'', PStr (decision_tag node))]"
  have 1: "extract_params_dict (node\<lparr>parameters := p\<rparr>) = Inr ?params"
    using a by (simp add: extract_params_dict_def)
  have 2: "extract_params_dict node = Inr ?params"
    using a by (simp add: extract_params_dict_def)
  have 3: "row_prefix (node\<lparr>parameters := p\<rparr>) siblings example = row_prefix node siblings example"
    by (simp add: row_prefix_def base_fields_def alternative_siblings_explicit)
  have 4: "kwargs_merge (row_prefix node siblings example) ?params = Inr (row_prefix node siblings example @ ?params)"
    by (simp add: keys_row_prefix)
  show "\<exists>params row. extract_params_dict (node\<lparr>parameters := p\<rparr>) = Inr params
         \<and> extract_params_dict node = Inr params
         \<and> nitta_node_to_df_dict (node\<lparr>parameters := p\<rparr>) siblings example = Inr row
         \<and> nitta_node_to_df_dict node siblings example = Inr row"
    using 1 2 3 4 by (simp add: nitta_node_to_df_dict_unfold)
qed

theorem parameters_contract_check_witness:
  "decision_tag example_malformed_bind \<in> set BIND_DECISION_TAGS \<union> set DATAFLOW_DECISION_TAGS
   \<and> parameters example_malformed_bind = PList [PInt 1]
   \<and> nitta_node_to_df_dict example_malformed_bind [] None =
       Inl (AssertionError ''parameters must be a dict for Bind and Dataflow decisions'')
   \<and> decision_tag example_refactoring \<notin> set BIND_DECISION_TAGS \<union> set DATAFLOW_DECISION_TAGS
   \<and> extract_params_dict (example_refactoring\<lparr>parameters := PList [PInt 1]\<rparr>) = extract_params_dict example_refactoring
   \<and> nitta_node_to_df_dict (example_refactoring\<lparr>parameters := PList [PInt 1]\<rparr>) [] None =
       nitta_node_to_df_dict example_refactoring [] None"
proof -
  have h1: "decision_tag example_malformed_bind \<in> set BIND_DECISION_TAGS \<union> set DATAFLOW_DECISION_TAGS
      \<and> (\<forall>d. parameters example_malformed_bind \<noteq> PDict d)"
    by (simp add: example_malformed_bind_def extractor_defs)
  have h2: "decision_tag example_refactoring \<notin> set BIND_DECISION_TAGS \<union> set DATAFLOW_DECISION_TAGS"
    by (simp add: example_refactoring_def extractor_defs)
  have p: "parameters example_malformed_bind = PList [PInt 1]"
    by (simp add: example_malformed_bind_def)
  from parameters_contract_check [where node = example_malformed_bind and siblings = "[]" and example = None] h1
  have a: "nitta_node_to_df_dict example_malformed_bind [] None =
       Inl (AssertionError ''parameters must be a dict for Bind and Dataflow decisions'')"
    by blast
  from parameters_contract_check [where node = example_refactoring and p = "PList [PInt 1]" and siblings = "[]" and example = None] h2
  have b: "extract_params_dict (example_refactoring\<lparr>parameters := PList [PInt 1]\<rparr>) = extract_params_dict example_refactoring
   \<and> nitta_node_to_df_dict (example_refactoring\<lparr>parameters := PList [PInt 1]\<rparr>) [] None =
       nitta_node_to_df_dict example_refactoring [] None"
    by auto
  from h1 h2 p a b show ?thesis by simp
qed

text \<open>
  Claim C10. For a Dataflow node whose parameters dictionary has a key that is one of the
  nine fixed fields of a row (\<open>tag\<close> among them), no row is produced: the extractor
  raises. When the parameters themselves are extracted without error the key is still among
  them, and the error is the \<open>TypeError\<close> of the repeated keyword.
\<close>

theorem dataflow_colliding_parameter_raises:
  assumes "decision_tag node \<in> set DATAFLOW_DECISION_TAGS"
    and "parameters node = PDict ps"
    and "k \<in> set (keys ps)"
    and "k \<in> {''example'', ''sid'', ''tag'', ''old_score'', ''is_terminal'',
               ''alt_bindings'', ''alt_group_bindings'', ''alt_dataflows'', ''alt_refactorings''}"
  shows "(\<exists>e. nitta_node_to_df_dict node siblings example = Inl e)
    \<and> (\<forall>params. extract_params_dict node = Inr params \<longrightarrow>
          k \<in> set (keys params)
        \<and> (\<exists>k'. nitta_node_to_df_dict node siblings example = Inl (TypeError k')))"
proof -
  have c: "k \<in> set (keys params) \<and> (\<exists>k'. nitta_node_to_df_dict node siblings example = Inl (TypeError k'))"
    if p: "extract_params_dict node = Inr params" for params
  proof -
    from p assms(1,2) obtain s where K: "''pNotTransferableInputs'' \<in> set (keys ps)"
      and ps: "params = AList.update ''pNotTransferableInputs'' s ps"
      by (auto simp: extract_params_dict_def known_tags split: option.splits sum.splits dest: map_of_present)
    have ks: "keys params = keys ps" unfolding ps using K by (rule keys_update_present)
    have 1: "k \<in> set (keys params)" using assms(3) ks by simp
    have 2: "k \<in> set (keys (row_prefix node siblings example))"
      using assms(4) by (simp add: keys_row_prefix)
    from kwargs_merge_collision [OF 1 2] p show ?thesis
      using 1 by (simp add: nitta_node_to_df_dict_unfold)
  qed
  have "\<exists>e. nitta_node_to_df_dict node siblings example = Inl e"
  proof (cases "extract_params_dict node")
    case (Inl e)
    then show ?thesis by (simp add: nitta_node_to_df_dict_unfold)
  next
    case (Inr params)
    from c [OF this] show ?thesis by blast
  qed
  with c show ?thesis by blast
qed

theorem dataflow_colliding_parameter_raises_witness:
  "decision_tag example_dataflow_with_tag \<in> set DATAFLOW_DECISION_TAGS
   \<and> parameters example_dataflow_with_tag =
        PDict [(''tag'', PStr ''DataflowMetrics''), (''pNotTransferableInputs'', PList [])]
   \<and> extract_params_dict example_dataflow_with_tag =
        Inr [(''tag'', PStr ''DataflowMetrics''), (''pNotTransferableInputs'', PInt 0)]
   \<and> (\<exists>k'. nitta_node_to_df_dict example_dataflow_with_tag [] None = Inl (TypeError k'))"
proof -
  let ?ps = "[(''tag'', PStr ''DataflowMetrics''), (''pNotTransferableInputs'', PList [])]"
  have t: "decision_tag example_dataflow_with_tag \<in> set DATAFLOW_DECISION_TAGS"
    by (simp add: example_dataflow_with_tag_def extractor_defs)
  have p: "parameters example_dataflow_with_tag = PDict ?ps" by (simp add: example_dataflow_with_tag_def)
  have k: "''tag'' \<in> set (keys ?ps)" by (simp add: keys_def)
  have r: "''tag'' \<in> {''example'', ''sid'', ''tag'', ''old_score'', ''is_terminal'',
               ''alt_bindings'', ''alt_group_bindings'', ''alt_dataflows'', ''alt_refactorings''}"
    by simp
  have e: "extract_params_dict example_dataflow_with_tag =
        Inr [(''tag'', PStr ''DataflowMetrics''), (''pNotTransferableInputs'', PInt 0)]"
    by (simp add: extractor_defs example_node_defs)
  from dataflow_colliding_parameter_raises [OF t p k r, of "[]" None] e
  have "\<exists>k'. nitta_node_to_df_dict example_dataflow_with_tag [] None = Inl (TypeError k')"
    by blast
  with t p e show ?thesis by simp
qed


section \<open>Properties of the sampling driver and the crawl orchestrator\<close>

text \<open>
  Claim C1. The driver absorbs \<open>KeyboardInterrupt\<close> and every \<open>Exception\<close>, but not the
  other exceptions an interruption can arrive as. When the target algorithm exists and the
  sampler is cancelled (\<open>asyncio.CancelledError\<close>, which is a \<open>BaseException\<close> outside both
  handlers) after leaving \<open>rows\<close> in the shared accumulator, the exception leaves the driver:
  the rows are never handed to \<open>process_and_save_sampling_results\<close> and no result is
  returned. For \<open>KeyboardInterrupt\<close> and \<open>Exception\<close> exactly \<open>rows\<close> are processed and
  the result of that call is returned.
\<close>

theorem cancelled_sampling_escapes_the_driver:
  assumes "path_exists env example"
    and "''results_accum'' \<notin> set (keys runner_kwargs)"
    and "run_synthesis_tree_sampling env example runner_kwargs [] = (rows, Some e)"
  shows "((\<exists>s. e = OtherBaseException s) \<longrightarrow>
            crawl_data_from_example env example data_dir runner_kwargs tr =
              (tr @ [Sampled example runner_kwargs], Inl e))
    \<and> (e = KeyboardInterrupt \<or> (\<exists>x. e = Exception x) \<longrightarrow>
            crawl_data_from_example env example data_dir runner_kwargs tr =
              (tr @ [Sampled example runner_kwargs, Processed example rows data_dir],
               map_sum id Some (process_and_save_sampling_results env example rows data_dir)))"
proof (intro conjI impI)
  assume "\<exists>s. e = OtherBaseException s"
  then have "\<not> handled e" by auto
  with assms show "crawl_data_from_example env example data_dir runner_kwargs tr =
      (tr @ [Sampled example runner_kwargs], Inl e)"
    by (simp add: crawl_data_from_example_def call_run_synthesis_tree_sampling_def)
next
  assume "e = KeyboardInterrupt \<or> (\<exists>x. e = Exception x)"
  then have "\<forall>e'. Some e = Some e' \<longrightarrow> handled e'" by auto
  from driver_finishes [OF assms this]
  show "crawl_data_from_example env example data_dir runner_kwargs tr =
      (tr @ [Sampled example runner_kwargs, Processed example rows data_dir],
       map_sum id Some (process_and_save_sampling_results env example rows data_dir))" .
qed

theorem cancelled_sampling_escapes_the_driver_witness:
  "path_exists (example_env (Some (OtherBaseException ''CancelledError''))) [''examples'', ''sum.lua'']
   \<and> run_synthesis_tree_sampling (example_env (Some (OtherBaseException ''CancelledError'')))
        [''examples'', ''sum.lua''] [(''n_samples'', PInt 2)] [] =
        (example_rows, Some (OtherBaseException ''CancelledError''))
   \<and> crawl_data_from_example (example_env (Some (OtherBaseException ''CancelledError'')))
        [''examples'', ''sum.lua''] (PPath [''data'']) [(''n_samples'', PInt 2)] [] =
        ([Sampled [''examples'', ''sum.lua''] [(''n_samples'', PInt 2)]],
         Inl (OtherBaseException ''CancelledError''))
   \<and> crawl_data_from_example (example_env (Some KeyboardInterrupt))
        [''examples'', ''sum.lua''] (PPath [''data'']) [(''n_samples'', PInt 2)] [] =
        ([Sampled [''examples'', ''sum.lua''] [(''n_samples'', PInt 2)],
          Processed [''examples'', ''sum.lua''] example_rows (PPath [''data''])],
         Inr (Some \<lparr>stats = [(''rows'', PInt 2)]\<rparr>))"
proof -
  let ?p = "[''examples'', ''sum.lua'']"
  let ?kw = "[(''n_samples'', PInt 2)]"
  let ?c = "OtherBaseException ''CancelledError''"
  have 1: "path_exists (example_env oc) ?p" for oc by (simp add: example_env_def)
  have 2: "''results_accum'' \<notin> set (keys ?kw)" by (simp add: keys_def)
  have 3: "run_synthesis_tree_sampling (example_env (Some e)) ?p ?kw [] = (example_rows, Some e)" for e
    by (simp add: example_env_def)
  have 5: "process_and_save_sampling_results (example_env oc) ?p example_rows (PPath [''data'']) =
             Inr \<lparr>stats = [(''rows'', PInt 2)]\<rparr>" for oc
    by (simp add: example_env_def example_rows_def)
  from cancelled_sampling_escapes_the_driver [OF 1 2 3, of ?c "PPath [''data'']" "[]"]
  have a: "crawl_data_from_example (example_env (Some ?c)) ?p (PPath [''data'']) ?kw [] =
        ([Sampled ?p ?kw], Inl ?c)"
    by simp
  from cancelled_sampling_escapes_the_driver [OF 1 2 3, of KeyboardInterrupt "PPath [''data'']" "[]"]
  have b: "crawl_data_from_example (example_env (Some KeyboardInterrupt)) ?p (PPath [''data'']) ?kw [] =
        ([Sampled ?p ?kw, Processed ?p example_rows (PPath [''data''])],
         Inr (Some \<lparr>stats = [(''rows'', PInt 2)]\<rparr>))"
    by (simp add: 5)
  from 1 3 a b show ?thesis by simp
qed

text \<open>
  Claim C7. For a target algorithm that does not exist the driver makes no call to a
  collaborator and returns \<open>None\<close>; in a crawl its entry changes nothing: the calls, the
  summary and the outcome are those of the configuration without it. With one such entry and
  one entry for a target algorithm that exists, whose sampling returns or ends in a handled
  exception and whose rows are processed and saved without error, in either order, that
  second entry is sampled and processed, the summary that is saved has exactly its row, and
  the crawl returns.
\<close>

theorem missing_source_is_skipped:
  assumes "\<not> path_exists env p" and "''example'' \<notin> set (keys kw)"
  shows "crawl_data_from_example env p data_dir runner_kwargs tr = (tr, Inr None)
    \<and> call_crawl_data_from_example env p kw tr = (tr, Inr None)
    \<and> crawl_data_from_many_examples env (Some (cfg1 @ (p, kw) # cfg2)) tr =
        crawl_data_from_many_examples env (Some (cfg1 @ cfg2)) tr
    \<and> (\<forall>q kwq rows outcome dd r.
          path_exists env q
        \<and> ''example'' \<notin> set (keys kwq) \<and> ''results_accum'' \<notin> set (keys kwq)
        \<and> run_synthesis_tree_sampling env q (AList.delete ''data_dir'' kwq) [] = (rows, outcome)
        \<and> (\<forall>e. outcome = Some e \<longrightarrow> handled e)
        \<and> dd = (case map_of kwq ''data_dir'' of None \<Rightarrow> PPath (DATA_DIR env) | Some d \<Rightarrow> d)
        \<and> process_and_save_sampling_results env q rows dd = Inr r
        \<and> save_dicts_list_to_csv_with_timestamp env [summary_row q r] (DATA_DIR env) ''_crawling_summary'' = None
        \<longrightarrow>
          crawl_data_from_many_examples env (Some [(p, kw), (q, kwq)]) tr =
            (tr @ [Sampled q (AList.delete ''data_dir'' kwq), Processed q rows dd,
                   SavedSummary [summary_row q r]], Inr ())
        \<and> crawl_data_from_many_examples env (Some [(q, kwq), (p, kw)]) tr =
            (tr @ [Sampled q (AList.delete ''data_dir'' kwq), Processed q rows dd,
                   SavedSummary [summary_row q r]], Inr ()))"
proof -
  have 1: "crawl_data_from_example env p dd rk t = (t, Inr None)" for dd rk t
    using assms(1) by (simp add: crawl_data_from_example_def)
  have 2: "call_crawl_data_from_example env p kw t = (t, Inr None)" for t
    using assms(2) by (simp add: call_crawl_data_from_example_def 1)
  have 3: "crawl_loop env ((p, kw) # cfg2) s t = crawl_loop env cfg2 s t" for s t
    by (simp add: 2)
  have 4: "crawl_loop env (cfg1 @ (p, kw) # cfg2) [] tr = crawl_loop env (cfg1 @ cfg2) [] tr"
    by (simp only: crawl_loop_append [of env cfg1] 3)
  have 5: "crawl_data_from_many_examples env (Some (cfg1 @ (p, kw) # cfg2)) tr =
        crawl_data_from_many_examples env (Some (cfg1 @ cfg2)) tr"
    by (simp add: crawl_data_from_many_examples_def 4)
  have 6: "crawl_data_from_many_examples env (Some [(p, kw), (q, kwq)]) tr =
            (tr @ [Sampled q (AList.delete ''data_dir'' kwq), Processed q rows dd,
                   SavedSummary [summary_row q r]], Inr ())
        \<and> crawl_data_from_many_examples env (Some [(q, kwq), (p, kw)]) tr =
            (tr @ [Sampled q (AList.delete ''data_dir'' kwq), Processed q rows dd,
                   SavedSummary [summary_row q r]], Inr ())"
    if h: "path_exists env q" "''example'' \<notin> set (keys kwq)" "''results_accum'' \<notin> set (keys kwq)"
      "run_synthesis_tree_sampling env q (AList.delete ''data_dir'' kwq) [] = (rows, outcome)"
      "\<forall>e. outcome = Some e \<longrightarrow> handled e"
      "dd = (case map_of kwq ''data_dir'' of None \<Rightarrow> PPath (DATA_DIR env) | Some d \<Rightarrow> d)"
      and pr: "process_and_save_sampling_results env q rows dd = Inr r"
      and sv: "save_dicts_list_to_csv_with_timestamp env [summary_row q r] (DATA_DIR env) ''_crawling_summary'' = None"
    for q kwq rows outcome dd r
  proof -
    have c: "call_crawl_data_from_example env q kwq t =
        (t @ [Sampled q (AList.delete ''data_dir'' kwq), Processed q rows dd], Inr (Some r))" for t
      using driver_call_finishes [OF h, of t] by (simp add: pr)
    show ?thesis
      by (simp add: crawl_data_from_many_examples_def 2 c save_summary_def sv)
  qed
  show ?thesis using 1 2 5 6 by blast
qed

theorem missing_source_is_skipped_witness:
  "\<not> path_exists (example_env None) [''examples'', ''missing.lua'']
   \<and> path_exists (example_env None) [''examples'', ''sum.lua'']
   \<and> run_synthesis_tree_sampling (example_env None) [''examples'', ''sum.lua''] [(''n_samples'', PInt 2)] [] =
        (example_rows, None)
   \<and> crawl_data_from_example (example_env None) [''examples'', ''missing.lua''] (PPath [''data''])
        [(''n_samples'', PInt 2)] [] = ([], Inr None)
   \<and> crawl_data_from_many_examples (example_env None)
        (Some [([''examples'', ''missing.lua''], [(''n_samples'', PInt 2)]),
               ([''examples'', ''sum.lua''], [(''n_samples'', PInt 2)])]) [] =
        ([Sampled [''examples'', ''sum.lua''] [(''n_samples'', PInt 2)],
          Processed [''examples'', ''sum.lua''] example_rows (PPath [''data'']),
          SavedSummary [[(''example'', PStr ''sum.lua''), (''rows'', PInt 2)]]],
         Inr ())"
proof -
  let ?env = "example_env None"
  let ?p = "[''examples'', ''missing.lua'']"
  let ?q = "[''examples'', ''sum.lua'']"
  let ?kw = "[(''n_samples'', PInt 2)]"
  let ?r = "\<lparr>stats = [(''rows'', PInt 2)]\<rparr>"
  have 1: "\<not> path_exists ?env ?p" by (simp add: example_env_def)
  have 2: "''example'' \<notin> set (keys ?kw)" by (simp add: keys_def)
  have 3: "path_exists ?env ?q" by (simp add: example_env_def)
  have 4: "run_synthesis_tree_sampling ?env ?q ?kw [] = (example_rows, None)"
    by (simp add: example_env_def)
  have sr: "summary_row ?q ?r = [(''example'', PStr ''sum.lua''), (''rows'', PInt 2)]"
    by (simp add: summary_row_def path_name_def)
  have h: "path_exists ?env ?q
        \<and> ''example'' \<notin> set (keys ?kw) \<and> ''results_accum'' \<notin> set (keys ?kw)
        \<and> run_synthesis_tree_sampling ?env ?q (AList.delete ''data_dir'' ?kw) [] = (example_rows, None)
        \<and> (\<forall>e. (None :: py_raise option) = Some e \<longrightarrow> handled e)
        \<and> PPath [''data''] = (case map_of ?kw ''data_dir'' of None \<Rightarrow> PPath (DATA_DIR ?env) | Some d \<Rightarrow> d)
        \<and> process_and_save_sampling_results ?env ?q example_rows (PPath [''data'']) = Inr ?r
        \<and> save_dicts_list_to_csv_with_timestamp ?env [summary_row ?q ?r] (DATA_DIR ?env) ''_crawling_summary'' = None"
    by (simp add: example_env_def example_rows_def keys_def)
  from missing_source_is_skipped [OF 1 2, of "PPath [''data'']" ?kw "[]" "[]" "[]"]
  have a: "crawl_data_from_example ?env ?p (PPath [''data'']) ?kw [] = ([], Inr None)"
    and b: "\<forall>q kwq rows outcome dd r.
          path_exists ?env q
        \<and> ''example'' \<notin> set (keys kwq) \<and> ''results_accum'' \<notin> set (keys kwq)
        \<and> run_synthesis_tree_sampling ?env q (AList.delete ''data_dir'' kwq) [] = (rows, outcome)
        \<and> (\<forall>e. outcome = Some e \<longrightarrow> handled e)
        \<and> dd = (case map_of kwq ''data_dir'' of None \<Rightarrow> PPath (DATA_DIR ?env) | Some d \<Rightarrow> d)
        \<and> process_and_save_sampling_results ?env q rows dd = Inr r
        \<and> save_dicts_list_to_csv_with_timestamp ?env [summary_row q r] (DATA_DIR ?env) ''_crawling_summary'' = None
        \<longrightarrow>
          crawl_data_from_many_examples ?env (Some [(?p, ?kw), (q, kwq)]) [] =
            ([] @ [Sampled q (AList.delete ''data_dir'' kwq), Processed q rows dd,
                   SavedSummary [summary_row q r]], Inr ())
        \<and> crawl_data_from_many_examples ?env (Some [(q, kwq), (?p, ?kw)]) [] =
            ([] @ [Sampled q (AList.delete ''data_dir'' kwq), Processed q rows dd,
                   SavedSummary [summary_row q r]], Inr ())"
    by blast+
  from b h have c: "crawl_data_from_many_examples ?env (Some [(?p, ?kw), (?q, ?kw)]) [] =
            ([] @ [Sampled ?q (AList.delete ''data_dir'' ?kw), Processed ?q example_rows (PPath [''data'']),
                   SavedSummary [summary_row ?q ?r]], Inr ())"
    by blast
  from 1 3 4 a c show ?thesis by (simp add: sr)
qed

text \<open>
  Claim C9. Without a configuration the orchestrator runs on \<open>MANUAL_FULL_CRAWL_CONFIG\<close>;
  with one, the empty one included, it runs on that one. When every entry's call returns,
  the calls are those of the entries in the order of the configuration, followed by the one
  call that saves the summary, whose rows are in the same order. When an entry's call
  raises, the crawl stops there with that exception and saves nothing.
\<close>

theorem explicit_config_overrides_default:
  "crawl_data_from_many_examples env None tr =
     crawl_data_from_many_examples env (Some (MANUAL_FULL_CRAWL_CONFIG (EXAMPLES_DIR env))) tr
   \<and> crawl_data_from_many_examples env (Some []) tr = save_summary env [] tr
   \<and> ((\<forall>entry \<in> set cfg. \<exists>res. entry_result env entry = Inr res) \<longrightarrow>
        crawl_data_from_many_examples env (Some cfg) tr =
          save_summary env (concat (map (entry_summary env) cfg)) (tr @ concat (map (entry_events env) cfg))
      \<and> filter is_SavedSummary (fst (crawl_data_from_many_examples env (Some cfg) [])) =
          [SavedSummary (concat (map (entry_summary env) cfg))])
   \<and> (\<forall>pre entry post e. cfg = pre @ entry # post
          \<and> (\<forall>entry \<in> set pre. \<exists>res. entry_result env entry = Inr res)
          \<and> entry_result env entry = Inl e \<longrightarrow>
        crawl_data_from_many_examples env (Some cfg) tr =
          (tr @ concat (map (entry_events env) pre) @ entry_events env entry, Inl e))"
proof -
  have a: "crawl_data_from_many_examples env None tr =
     crawl_data_from_many_examples env (Some (MANUAL_FULL_CRAWL_CONFIG (EXAMPLES_DIR env))) tr"
    by (simp add: crawl_data_from_many_examples_def)
  have b: "crawl_data_from_many_examples env (Some []) tr = save_summary env [] tr"
    by (simp add: crawl_data_from_many_examples_def)
  have c: "crawl_data_from_many_examples env (Some cfg) t =
          save_summary env (concat (map (entry_summary env) cfg)) (t @ concat (map (entry_events env) cfg))"
    if "\<forall>entry \<in> set cfg. \<exists>res. entry_result env entry = Inr res" for t
    by (simp add: crawl_data_from_many_examples_def crawl_loop_all_return [OF that])
  have nosave: "filter is_SavedSummary (concat (map (entry_events env) cfg)) = []"
    by (auto simp: filter_empty_conv dest: entry_events_not_saved)
  have d: "filter is_SavedSummary (fst (crawl_data_from_many_examples env (Some cfg) [])) =
          [SavedSummary (concat (map (entry_summary env) cfg))]"
    if "\<forall>entry \<in> set cfg. \<exists>res. entry_result env entry = Inr res"
    using nosave by (simp add: c [OF that] save_summary_def)
  have e: "crawl_data_from_many_examples env (Some cfg) tr =
          (tr @ concat (map (entry_events env) pre) @ entry_events env entry, Inl e)"
    if "cfg = pre @ entry # post" and "\<forall>entry \<in> set pre. \<exists>res. entry_result env entry = Inr res"
      and "entry_result env entry = Inl e" for pre entry post e
    by (simp add: crawl_data_from_many_examples_def that(1) crawl_loop_append [of env pre]
        crawl_loop_all_return [OF that(2)] crawl_loop_raises [OF that(3)])
  show ?thesis using a b c d e by blast
qed

theorem explicit_config_overrides_default_witness:
  "crawl_data_from_many_examples (example_env (Some KeyboardInterrupt)) (Some []) [] =
     ([SavedSummary []], Inr ())
   \<and> crawl_data_from_many_examples (example_env (Some KeyboardInterrupt))
        (Some [([''examples'', ''sum.lua''], [(''n_samples'', PInt 2)]),
               ([''examples'', ''pid.lua''], [(''n_samples'', PInt 3)])]) [] =
        ([Sampled [''examples'', ''sum.lua''] [(''n_samples'', PInt 2)],
          Processed [''examples'', ''sum.lua''] example_rows (PPath [''data'']),
          Sampled [''examples'', ''pid.lua''] [(''n_samples'', PInt 3)],
          Processed [''examples'', ''pid.lua''] example_rows (PPath [''data'']),
          SavedSummary [[(''example'', PStr ''sum.lua''), (''rows'', PInt 2)],
                        [(''example'', PStr ''pid.lua''), (''rows'', PInt 2)]]],
         Inr ())"
proof -
  let ?env = "example_env (Some KeyboardInterrupt)"
  let ?q = "[''examples'', ''sum.lua'']"
  let ?q' = "[''examples'', ''pid.lua'']"
  let ?cfg = "[(?q, [(''n_samples'', PInt 2)]), (?q', [(''n_samples'', PInt 3)])]"
  have ok: "\<forall>entry \<in> set ?cfg. \<exists>res. entry_result ?env entry = Inr res"
    by (simp add: crawl_defs)
  have ev: "concat (map (entry_events ?env) ?cfg) =
        [Sampled ?q [(''n_samples'', PInt 2)], Processed ?q example_rows (PPath [''data'']),
         Sampled ?q' [(''n_samples'', PInt 3)], Processed ?q' example_rows (PPath [''data''])]"
    by (simp add: crawl_defs)
  have su: "concat (map (entry_summary ?env) ?cfg) =
        [[(''example'', PStr ''sum.lua''), (''rows'', PInt 2)], [(''example'', PStr ''pid.lua''), (''rows'', PInt 2)]]"
    by (simp add: crawl_defs)
  have sv: "save_summary ?env s t = (t @ [SavedSummary s], Inr ())" for s t
    by (simp add: save_summary_def example_env_def)
  note inst = explicit_config_overrides_default [of ?env "[]" ?cfg]
  from inst have a: "crawl_data_from_many_examples ?env (Some []) [] = ([SavedSummary []], Inr ())"
    by (simp add: sv)
  from inst ok have c: "crawl_data_from_many_examples ?env (Some ?cfg) [] =
          save_summary ?env (concat (map (entry_summary ?env) ?cfg))
            ([] @ concat (map (entry_events ?env) ?cfg))"
    by blast
  have c': "crawl_data_from_many_examples ?env (Some ?cfg) [] =
        ([Sampled ?q [(''n_samples'', PInt 2)], Processed ?q example_rows (PPath [''data'']),
          Sampled ?q' [(''n_samples'', PInt 3)], Processed ?q' example_rows (PPath [''data'']),
          SavedSummary [[(''example'', PStr ''sum.lua''), (''rows'', PInt 2)],
                        [(''example'', PStr ''pid.lua''), (''rows'', PInt 2)]]],
         Inr ())"
    unfolding c ev su sv by simp
  from a c' show ?thesis by simp
qed

end
